theory Spec2Isabelle
  imports Main "HOL-Library.Sublist"
begin

section \<open>JavaScript values of the CodeChat Editor client\<close>

text \<open>
  The client (\<open>CodeChatEditor.mjs\<close>) works on JavaScript strings, modelled as
  \<^typ>\<open>string\<close>. A classified line is the array \<open>[indent, delimiter, contents]\<close>; its
  delimiter is a string or \<open>null\<close>, modelled as \<^typ>\<open>string option\<close>. The variable
  \<open>current_delimiter\<close> of the renderer also holds the number \<open>-2\<close>, so it gets a type
  of its own. A \<open>TypeError\<close> raised by the code is the value \<open>Inl TypeError\<close>.
\<close>

datatype js_error = TypeError | SyntaxError

datatype js_delim = Num int | Null | Str string

type_synonym triple = "string \<times> string option \<times> string"

definition LF :: char where
  "LF = CHR 0x0A"

definition CR :: char where
  "CR = CHR 0x0D"

fun of_delimiter :: "string option \<Rightarrow> js_delim" where
  "of_delimiter None = Null"
| "of_delimiter (Some s) = Str s"

text \<open>A string or \<open>null\<close> inside a template literal: \<open>null\<close> prints as the word.\<close>

fun template_string :: "string option \<Rightarrow> string" where
  "template_string None = ''null''"
| "template_string (Some s) = s"

text \<open>A non-negative integer inside a template literal prints in decimal.\<close>

definition digit_char :: "nat \<Rightarrow> char" where
  "digit_char d = ''0123456789'' ! d"

function template_nat :: "nat \<Rightarrow> string" where
  "template_nat n = (if n < 10 then [digit_char n] else template_nat (n div 10) @ [digit_char (n mod 10)])"
  by pat_completeness auto
termination
  by (relation "measure id") auto

declare template_nat.simps [simp del]

section \<open>Helper functions\<close>

text \<open>
  \<open>String.prototype.replaceAll\<close> with a one-character pattern and a replacement that
  has no \<open>$\<close> in it: every occurrence of the character becomes the replacement.
\<close>

definition replaceAll :: "char \<Rightarrow> string \<Rightarrow> string \<Rightarrow> string" where
  "replaceAll pattern replacement s =
     concat (map (\<lambda>c. if c = pattern then replacement else [c]) s)"

definition escapeHTML :: "string \<Rightarrow> string" where
  "escapeHTML unsafeText =
     (let t1 = replaceAll (CHR ''&'') ''&amp;'' unsafeText;
          t2 = replaceAll (CHR ''<'') ''&lt;'' t1;
          t3 = replaceAll (CHR ''>'') ''&gt;'' t2
      in t3)"

section \<open>Convert lexed code into HTML\<close>

text \<open>
  \<open>contents.match(/\n$/)\<close>: without the multiline flag \<open>$\<close> is the end of the input,
  so the match exists exactly when the last character is a line feed. The result holds
  \<open>m.index\<close> and \<open>m[0]\<close>; \<open>None\<close> is \<open>null\<close>.
\<close>

definition match_newline_end :: "string \<Rightarrow> (nat \<times> string) option" where
  "match_newline_end contents =
     (if contents \<noteq> [] \<and> last contents = LF then Some (length contents - 1, [LF]) else None)"

text \<open>
  \<open>(contents.match(/\n|\r\n|\r/g) || []).length\<close>: the matches are found left to
  right, a carriage return followed by a line feed being one match.
\<close>

fun count_line_terminators :: "string \<Rightarrow> nat" where
  "count_line_terminators [] = 0"
| "count_line_terminators [c] = (if c = LF \<or> c = CR then 1 else 0)"
| "count_line_terminators (c # d # cs) =
     (if c = LF then 1 + count_line_terminators (d # cs)
      else if c = CR \<and> d = LF then 1 + count_line_terminators cs
      else if c = CR then 1 + count_line_terminators (d # cs)
      else count_line_terminators (d # cs))"

text \<open>The markup pushed when a code block or a doc block is entered.\<close>

definition code_open :: "nat \<Rightarrow> string" where
  \<open>code_open line =
     [LF] @ ''<div class="CodeChat-code">'' @ [LF] @
     ''    <div class="CodeChat-ACE" data-CodeChat-firstLineNumber="'' @ template_nat line @ ''">''\<close>

definition doc_open :: "string \<Rightarrow> string option \<Rightarrow> string" where
  \<open>doc_open indent delimiter =
     ''<div class="CodeChat-doc">'' @ [LF] @
     ''    <table>'' @ [LF] @
     ''        <tbody>'' @ [LF] @
     ''            <tr>'' @ [LF] @
     ''                <td class="CodeChat-ACE-gutter-padding ace_editor">&nbsp;&nbsp;&nbsp</td>'' @ [LF] @
     ''                <td class="CodeChat-ACE-padding"></td>'' @
     ''                <td class="ace_editor CodeChat-doc-indent" contenteditable onpaste="return false">'' @
     indent @ ''</td>'' @ [LF] @
     ''                <td class="CodeChat-TinyMCE-td"><div class="CodeChat-TinyMCE" data-CodeChat-comment="'' @
     template_string delimiter @ ''">''\<close>

text \<open>The markup pushed when a block is left.\<close>

definition code_close :: string where
  \<open>code_close = ''</div>'' @ [LF] @ ''</div>'' @ [LF]\<close>

definition doc_close :: string where
  \<open>doc_close =
     ''</td>'' @ [LF] @
     ''            </tr>'' @ [LF] @
     ''        </tbody>'' @ [LF] @
     ''    </table>'' @ [LF] @
     ''</div>'' @ [LF]\<close>

text \<open>
  \<open>_exit_state(delimiter, html)\<close> pushes onto the array \<open>html\<close>; the model returns the
  array. \<open>typeof delimiter === "string"\<close> holds for \<open>Str\<close> only.
\<close>

fun is_string :: "js_delim \<Rightarrow> bool" where
  "is_string (Str s) = True"
| "is_string (Num n) = False"
| "is_string Null = False"

definition exit_state :: "js_delim \<Rightarrow> string list \<Rightarrow> string list" where
  "exit_state delimiter html =
     (if delimiter = Str [] then html @ [code_close]
      else if is_string delimiter then html @ [doc_close]
      else html)"

text \<open>
  The state of the loop of \<open>classified_source_to_html\<close>: the array \<open>html\<close>,
  \<open>current_delimiter\<close> and \<open>line\<close>. \<open>loop_body\<close> is one pass of the \<open>for\<close> loop.
  In the branch that continues a block the code reads \<open>m[0]\<close>, which raises a
  \<open>TypeError\<close> when \<open>m\<close> is \<open>null\<close>.
\<close>

type_synonym render_state = "string list \<times> js_delim \<times> nat"

fun loop_body :: "render_state \<Rightarrow> triple \<Rightarrow> js_error + render_state" where
  "loop_body (html, current_delimiter, line) (indent, delimiter, contents0) =
     (let m = match_newline_end contents0;
          contents = (case m of Some (index, m0) \<Rightarrow> take index contents0 | None \<Rightarrow> contents0);
          line' = line + 1 + count_line_terminators contents
      in if current_delimiter \<noteq> of_delimiter delimiter then
           (let html1 = exit_state current_delimiter html;
                html2 = (if delimiter = Some [] then html1 @ [code_open line, escapeHTML contents]
                         else html1 @ [doc_open indent delimiter, contents])
            in Inr (html2, of_delimiter delimiter, line'))
         else
           (case m of
              None \<Rightarrow> Inl TypeError
            | Some (index, m0) \<Rightarrow>
                Inr (html @ [m0, if delimiter = Some [] then escapeHTML contents else contents],
                     of_delimiter delimiter, line')))"

fun for_loop :: "render_state \<Rightarrow> triple list \<Rightarrow> js_error + render_state" where
  "for_loop st [] = Inr st"
| "for_loop st (t # ts) =
     (case loop_body st t of Inl e \<Rightarrow> Inl e | Inr st' \<Rightarrow> for_loop st' ts)"

definition initial_state :: render_state where
  "initial_state = ([], Num (- 2), 1)"

definition classified_source_to_html :: "triple list \<Rightarrow> js_error + string" where
  "classified_source_to_html classified_source =
     (case for_loop initial_state classified_source of
        Inl e \<Rightarrow> Inl e
      | Inr (html, current_delimiter, line) \<Rightarrow> Inr (concat (exit_state current_delimiter html)))"

section \<open>Save editor contents to source code\<close>

text \<open>
  \<open>full_string.split(/\r?\n/)\<close>: the string is scanned from the left; a line feed, or
  a carriage return with a line feed right after it, ends the current piece; the last
  piece runs to the end of the string. \<open>split_from piece rest\<close> holds the characters
  of the current piece read so far.
\<close>

fun split_from :: "string \<Rightarrow> string \<Rightarrow> string list" where
  "split_from piece [] = [piece]"
| "split_from piece [c] = (if c = LF then [piece, []] else [piece @ [c]])"
| "split_from piece (c # d # cs) =
     (if c = LF then piece # split_from [] (d # cs)
      else if c = CR \<and> d = LF then piece # split_from [] cs
      else split_from (piece @ [c]) (d # cs))"

definition split_lines :: "string \<Rightarrow> string list" where
  "split_lines full_string = split_from [] full_string"

text \<open>
  What \<open>document.querySelectorAll(".CodeChat-ACE, .CodeChat-TinyMCE")\<close> finds, in
  document order. An ACE tag carries the value of its editor. A TinyMCE tag carries the
  text of the indent cell before it, its \<open>data-CodeChat-comment\<close> attribute (\<open>None\<close>
  when the tag has none, where \<open>getAttribute\<close> gives \<open>null\<close>) and the content of its
  editor. \<open>html_beautify\<close> belongs to the library js-beautify and is a parameter, taking
  the text and \<open>wrap_line_length\<close>.
\<close>

datatype editor_tag =
    ACE string
  | TinyMCE string "string option" string

definition is_doc_only :: "string \<Rightarrow> bool" where
  "is_doc_only mode = (mode = ''codechat-html'')"

text \<open>
  The indent, the delimiter and \<open>full_string\<close> of one tag. With a \<open>null\<close> delimiter
  \<open>delimiter.length\<close> raises a \<open>TypeError\<close>.
\<close>

fun tag_block ::
  "(string \<Rightarrow> int \<Rightarrow> string) \<Rightarrow> string \<Rightarrow> editor_tag \<Rightarrow> js_error + (string \<times> string option \<times> string)"
where
  "tag_block html_beautify mode (ACE editor_value) = Inr ([], Some [], editor_value)"
| "tag_block html_beautify mode (TinyMCE indent_cell attribute content) =
     (let indent = (if \<not> is_doc_only mode then indent_cell else []);
          delimiter = (if \<not> is_doc_only mode then attribute else Some [])
      in case delimiter of
           None \<Rightarrow> Inl TypeError
         | Some d \<Rightarrow>
             Inr (indent, delimiter,
                  html_beautify content (80 - int (length indent) - int (length d) - 1)))"

fun tags_loop ::
  "(string \<Rightarrow> int \<Rightarrow> string) \<Rightarrow> string \<Rightarrow> triple list \<Rightarrow> editor_tag list \<Rightarrow> js_error + triple list"
where
  "tags_loop html_beautify mode classified_lines [] = Inr classified_lines"
| "tags_loop html_beautify mode classified_lines (tag # tags) =
     (case tag_block html_beautify mode tag of
        Inl e \<Rightarrow> Inl e
      | Inr (indent, delimiter, full_string) \<Rightarrow>
          tags_loop html_beautify mode
            (classified_lines @
               map (\<lambda>string. (indent, delimiter, string @ [LF])) (split_lines full_string))
            tags)"

definition editor_to_code_doc_blocks ::
  "(string \<Rightarrow> int \<Rightarrow> string) \<Rightarrow> string \<Rightarrow> editor_tag list \<Rightarrow> js_error + triple list"
where
  "editor_to_code_doc_blocks html_beautify mode tags = tags_loop html_beautify mode [] tags"

section \<open>Doc block indent editor\<close>

text \<open>
  A \<open>beforeinput\<close> event: its \<open>data\<close> (a string or \<open>null\<close>) and whether
  \<open>preventDefault\<close> has been called on it.
\<close>

record input_event =
  data :: "string option"
  defaultPrevented :: bool

definition preventDefault :: "input_event \<Rightarrow> input_event" where
  "preventDefault event = event\<lparr>defaultPrevented := True\<rparr>"

definition repeat :: "string \<Rightarrow> nat \<Rightarrow> string" where
  "repeat s n = concat (replicate n s)"

text \<open>\<open>if (event.data)\<close> holds for a string that is not empty.\<close>

definition doc_block_indent_on_before_input :: "input_event \<Rightarrow> input_event" where
  "doc_block_indent_on_before_input event =
     (case data event of
        None \<Rightarrow> event
      | Some d \<Rightarrow>
          if d \<noteq> [] then
            (if d \<noteq> repeat '' '' (length d) then preventDefault event else event)
          else event)"

section \<open>Save the contents back to the filesystem\<close>

text \<open>
  The value a response body parses to, and the result of reading a property of it.
  Reading a property of \<open>null\<close> raises a \<open>TypeError\<close>; an object gives the value of
  its property, or \<open>undefined\<close>; the other values have no property \<open>success\<close>.
\<close>

datatype json_value =
    JNull
  | JBool bool
  | JNumber int
  | JString string
  | JArray "json_value list"
  | JObject "(string \<times> json_value) list"

datatype js_value = Undefined | Value json_value

fun get_property :: "json_value \<Rightarrow> string \<Rightarrow> js_error + js_value" where
  "get_property JNull name = Inl TypeError"
| "get_property (JObject properties) name =
     Inr (case map_of properties name of None \<Rightarrow> Undefined | Some v \<Rightarrow> Value v)"
| "get_property v name = Inr Undefined"

text \<open>
  A response: \<open>ok\<close>, \<open>status\<close>, \<open>statusText\<close> and what awaiting \<open>json()\<close> gives (the
  parsed body, or the error the promise rejects with).
\<close>

record response =
  ok :: bool
  status :: nat
  statusText :: string
  json :: "js_error + json_value"

text \<open>
  \<open>save\<close> awaits \<open>window.fetch\<close>, which either throws or rejects (\<open>Inl\<close>, holding the
  error as the template literal prints it) or gives a response. The result is the list
  of messages passed to \<open>window.alert\<close> and how \<open>save\<close> ends: \<open>Inr ()\<close> when it
  returns, \<open>Inl\<close> when it raises.
\<close>

definition save :: "string + response \<Rightarrow> string list \<times> (js_error + unit)" where
  "save fetch_outcome =
     (case fetch_outcome of
        Inl error \<Rightarrow> ([''Save failed -- '' @ error @ ''.''], Inr ())
      | Inr response \<Rightarrow>
          if ok response then
            (case json response of
               Inl e \<Rightarrow> ([], Inl e)
             | Inr response_body \<Rightarrow>
                 (case get_property response_body ''success'' of
                    Inl e \<Rightarrow> ([], Inl e)
                  | Inr success \<Rightarrow>
                      if success \<noteq> Value (JBool True) then ([''Save failed.''], Inr ())
                      else ([], Inr ())))
          else
            ([''Save failed -- server returned '' @ template_nat (status response) @ '', '' @
                statusText response @ ''.''],
             Inr ()))"

section \<open>Notions used to state the properties\<close>

text \<open>What the three passes of \<open>escapeHTML\<close> do to one character of the input.\<close>

definition escape_char :: "char \<Rightarrow> string" where
  "escape_char c =
     (if c = CHR ''&'' then ''&amp;''
      else if c = CHR ''<'' then ''&lt;''
      else if c = CHR ''>'' then ''&gt;''
      else [c])"

text \<open>
  A string that ends with a line feed, and a string without that last line feed.
\<close>

definition ends_with_newline :: "string \<Rightarrow> bool" where
  "ends_with_newline s = (s \<noteq> [] \<and> last s = LF)"

definition chomp :: "string \<Rightarrow> string" where
  "chomp s = (if ends_with_newline s then butlast s else s)"



definition contents_of :: "triple \<Rightarrow> string" where
  "contents_of t = snd (snd t)"




definition lines_of :: "triple list \<Rightarrow> nat" where
  "lines_of run = sum_list (map (\<lambda>t. 1 + count_line_terminators (chomp (contents_of t))) run)"



text \<open>
  A text with every carriage return that a line feed follows left out; the
  \<open>full_string\<close> that \<open>editor_to_code_doc_blocks\<close> splits for a tag (the value of an
  ACE editor, the beautified content of a TinyMCE editor); and the tags for which the
  delimiter is a string: every tag but a TinyMCE tag without the attribute
  \<open>data-CodeChat-comment\<close> outside a CodeChat document.
\<close>

fun crlf_to_lf :: "string \<Rightarrow> string" where
  "crlf_to_lf [] = []"
| "crlf_to_lf [c] = [c]"
| "crlf_to_lf (c # d # cs) =
     (if c = CR \<and> d = LF then LF # crlf_to_lf cs else c # crlf_to_lf (d # cs))"

definition full_string :: "(string \<Rightarrow> int \<Rightarrow> string) \<Rightarrow> string \<Rightarrow> editor_tag \<Rightarrow> string" where
  "full_string html_beautify mode tag =
     (case tag_block html_beautify mode tag of
        Inr (indent, delimiter, s) \<Rightarrow> s
      | Inl e \<Rightarrow> [])"

fun comment_known :: "string \<Rightarrow> editor_tag \<Rightarrow> bool" where
  "comment_known mode (ACE editor_value) = True"
| "comment_known mode (TinyMCE indent_cell attribute content) =
     (is_doc_only mode \<or> attribute \<noteq> None)"

section \<open>Properties of \<open>escapeHTML\<close>\<close>

lemma replaceAll_append:
  "replaceAll p r (xs @ ys) = replaceAll p r xs @ replaceAll p r ys"
  by (simp add: replaceAll_def)

lemma replaceAll_concat_map:
  "replaceAll p r (concat (map f s)) = concat (map (\<lambda>c. replaceAll p r (f c)) s)"
  by (induction s) (simp_all add: replaceAll_append, simp add: replaceAll_def)

lemma replaceAll_as_concat_map:
  "replaceAll p r s = concat (map (\<lambda>c. if c = p then r else [c]) s)"
  by (simp add: replaceAll_def)

lemma escapeHTML_chars: "escapeHTML s = concat (map escape_char s)"
proof -
  have "escapeHTML s =
      concat (map (\<lambda>c. replaceAll (CHR ''>'') ''&gt;''
        (replaceAll (CHR ''<'') ''&lt;'' (if c = CHR ''&'' then ''&amp;'' else [c]))) s)"
    unfolding escapeHTML_def Let_def
    by (simp add: replaceAll_as_concat_map [of "CHR ''&''"] replaceAll_concat_map)
  also have "\<dots> = concat (map escape_char s)"
    by (rule arg_cong [where f = concat], rule map_cong)
       (simp_all add: escape_char_def replaceAll_def)
  finally show ?thesis .
qed

lemma escapeHTML_Nil: "escapeHTML [] = []"
  by (simp add: escapeHTML_chars)

lemma escapeHTML_Cons: "escapeHTML (c # s) = escape_char c @ escapeHTML s"
  by (simp add: escapeHTML_chars)


lemma escape_char_no_angle:
  "CHR ''<'' \<notin> set (escape_char c) \<and> CHR ''>'' \<notin> set (escape_char c)"
  by (simp add: escape_char_def)

lemma escape_char_Cons_inject:
  assumes "escape_char a @ xs = escape_char b @ ys"
  shows "a = b \<and> xs = ys"
proof -
  have a: "a = b"
    using assms by (auto simp: escape_char_def split: if_splits)
  with assms show ?thesis by simp
qed

lemma escape_char_not_Nil: "escape_char c \<noteq> []"
  by (simp add: escape_char_def)

lemma escapeHTML_inject: "escapeHTML a = escapeHTML b \<Longrightarrow> a = b"
proof (induction a arbitrary: b)
  case Nil
  then show ?case
    by (cases b) (simp_all add: escapeHTML_Nil escapeHTML_Cons escape_char_not_Nil)
next
  case (Cons x xs)
  show ?case
  proof (cases b)
    case Nil
    with Cons.prems show ?thesis
      by (simp add: escapeHTML_Nil escapeHTML_Cons escape_char_not_Nil)
  next
    case (Cons y ys)
    with Cons.prems have "escape_char x @ escapeHTML xs = escape_char y @ escapeHTML ys"
      by (simp add: escapeHTML_Cons)
    then have "x = y" "escapeHTML xs = escapeHTML ys"
      using escape_char_Cons_inject by blast+
    with Cons.IH Cons show ?thesis by simp
  qed
qed

text \<open>
  Claim C8. For every input string the output of \<open>escapeHTML\<close> holds no \<open><\<close> and
  no \<open>>\<close>, and \<open>escapeHTML\<close> is injective: two inputs have the same output exactly
  when they are the same string.
\<close>

theorem escapeHTML_no_angle_and_injective:
  "CHR ''<'' \<notin> set (escapeHTML s) \<and> CHR ''>'' \<notin> set (escapeHTML s) \<and>
   ((escapeHTML a = escapeHTML b) = (a = b))"
proof -
  have "CHR ''<'' \<notin> set (escapeHTML s)" "CHR ''>'' \<notin> set (escapeHTML s)"
    using escape_char_no_angle by (auto simp: escapeHTML_chars)
  moreover have "(escapeHTML a = escapeHTML b) = (a = b)"
    using escapeHTML_inject by blast
  ultimately show ?thesis by simp
qed

section \<open>Properties of \<open>classified_source_to_html\<close>\<close>




lemma loop_body_enter:
  assumes "cur \<noteq> of_delimiter delimiter"
  shows "loop_body (html, cur, line) (indent, delimiter, contents) =
     Inr (exit_state cur html @
            [if delimiter = Some [] then code_open line else doc_open indent delimiter,
             if delimiter = Some [] then escapeHTML (chomp contents) else chomp contents],
          of_delimiter delimiter, line + 1 + count_line_terminators (chomp contents))"
  using assms
  by (simp add: Let_def match_newline_end_def chomp_def ends_with_newline_def butlast_conv_take)

lemma loop_body_continue:
  assumes "cur = of_delimiter delimiter"
  shows "loop_body (html, cur, line) (indent, delimiter, contents) =
     (if ends_with_newline contents then
        Inr (html @ [[LF], if delimiter = Some [] then escapeHTML (chomp contents) else chomp contents],
             of_delimiter delimiter, line + 1 + count_line_terminators (chomp contents))
      else Inl TypeError)"
  using assms
  by (simp add: Let_def match_newline_end_def chomp_def ends_with_newline_def butlast_conv_take)

declare loop_body.simps [simp del]















text \<open>Facts that evaluate the renderer on a given input.\<close>

lemmas run_simps =
  classified_source_to_html_def initial_state_def loop_body.simps Let_def
  match_newline_end_def exit_state_def LF_def CR_def escapeHTML_def replaceAll_def
  numeral_2_eq_2 [symmetric] numeral_3_eq_3 [symmetric]



text \<open>
  Claim C9. On the empty sequence \<open>classified_source_to_html\<close> returns the empty
  string: the loop leaves \<open>current_delimiter\<close> at \<open>-2\<close>, for which \<open>_exit_state\<close>
  pushes nothing onto any array.
\<close>

theorem classified_source_to_html_empty:
  "classified_source_to_html [] = Inr [] \<and> exit_state (Num (- 2)) html = html"
  by (simp add: classified_source_to_html_def initial_state_def exit_state_def)

text \<open>
  Claim C4. A triple with the delimiter \<open>null\<close> is opened as a doc block, whose
  attribute reads \<open>null\<close>, but the closing markup of a doc block is never pushed for
  it: \<open>_exit_state\<close> tests \<open>typeof delimiter === "string"\<close>, which \<open>null\<close> fails.
  So a page of one such triple ends after its contents, and a code block that follows
  starts right after the contents of the doc block.
\<close>

theorem null_delimiter_never_closed:
  "classified_source_to_html [(indent, None, contents)] = Inr (doc_open indent None @ chomp contents) \<and>
   classified_source_to_html [([], None, ''x\<newline>''), ([], Some [], ''y\<newline>'')] =
     Inr (doc_open [] None @ ''x'' @ code_open 2 @ ''y'' @ code_close)"
  by (simp add: run_simps chomp_def ends_with_newline_def butlast_conv_take)

text \<open>
  Claim C1. The branch that continues a block pushes \<open>m[0]\<close>, the newline of the
  triple at hand, not the one removed from the triple before it. When a triple continues
  a block and has no trailing newline, \<open>m\<close> is \<open>null\<close> and the code raises a
  \<open>TypeError\<close>; when the triple before it had no newline and this one has, a newline
  that was never removed stands between the two.
\<close>

theorem continued_line_without_newline_raises:
  "classified_source_to_html [([], Some [], ''a\<newline>''), ([], Some [], ''b'')] = Inl TypeError \<and>
   classified_source_to_html [([], Some [], ''a''), ([], Some [], ''b\<newline>'')] =
     Inr (code_open 1 @ ''a'' @ ''\<newline>'' @ ''b'' @ code_close)"
  by (simp add: run_simps)

text \<open>
  Claim C10. Of a content that ends with a carriage return and a line feed only the
  line feed is removed; the carriage return left behind is then counted as a line
  terminator of its own, so the line is counted twice. After the one line \<open>a\<close> ended
  by CR LF, the code block that follows gets the first line number 3, while 1 plus the
  number of line terminators before it is 2.
\<close>

theorem first_line_number_counts_crlf_twice:
  "classified_source_to_html [([], Some ''#'', ''a'' @ [CR, LF]), ([], Some [], ''b\<newline>'')] =
     Inr (doc_open [] (Some ''#'') @ ''a'' @ [CR] @ doc_close @ code_open 3 @ ''b'' @ code_close) \<and>
   1 + count_line_terminators (''a'' @ [CR, LF]) = 2"
  by (simp add: run_simps)

subsection \<open>Runs of equal delimiters\<close>



lemma chomp_LF: "ends_with_newline c \<Longrightarrow> chomp c @ [LF] = c"
  by (simp add: chomp_def ends_with_newline_def) (metis append_butlast_last_id)


















subsection \<open>Line numbers\<close>

lemma count_line_terminators_snoc_LF:
  "s = [] \<or> last s \<noteq> CR \<Longrightarrow>
     count_line_terminators (s @ [LF]) = Suc (count_line_terminators s)"
  by (induction s rule: count_line_terminators.induct) (auto simp: LF_def CR_def split: if_splits)

lemma loop_body_line:
  assumes "loop_body (h, cur, l) t = Inr (h', c', l')"
  shows "l' = l + 1 + count_line_terminators (chomp (contents_of t))"
proof -
  obtain i d c where t: "t = (i, d, c)" by (cases t) auto
  show ?thesis
  proof (cases "cur = of_delimiter d")
    case True
    with assms show ?thesis
      by (auto simp: t loop_body_continue contents_of_def split: if_splits)
  next
    case False
    with assms show ?thesis
      by (auto simp: t loop_body_enter contents_of_def)
  qed
qed

lemma for_loop_line:
  "for_loop (h, cur, l) ts = Inr (h', c', l') \<Longrightarrow> l' = l + lines_of ts"
proof (induction ts arbitrary: h cur l)
  case Nil
  then show ?case by (simp add: lines_of_def)
next
  case (Cons t ts)
  from Cons.prems obtain h1 c1 l1 where
    step: "loop_body (h, cur, l) t = Inr (h1, c1, l1)" and
    rest: "for_loop (h1, c1, l1) ts = Inr (h', c', l')"
    by (auto split: sum.splits)
  from loop_body_line [OF step] Cons.IH [OF rest] show ?case
    by (simp add: lines_of_def)
qed

lemma lines_of_without_crlf:
  assumes "\<forall>t\<in>set ts. ends_with_newline (contents_of t) \<and>
             (chomp (contents_of t) = [] \<or> last (chomp (contents_of t)) \<noteq> CR)"
  shows "lines_of ts = sum_list (map (\<lambda>t. count_line_terminators (contents_of t)) ts)"
  using assms
proof (induction ts)
  case Nil
  show ?case by (simp add: lines_of_def)
next
  case (Cons t ts)
  then have nl: "ends_with_newline (contents_of t)"
    and cr: "chomp (contents_of t) = [] \<or> last (chomp (contents_of t)) \<noteq> CR"
    by simp_all
  from count_line_terminators_snoc_LF [OF cr] chomp_LF [OF nl]
  have "count_line_terminators (contents_of t) =
      Suc (count_line_terminators (chomp (contents_of t)))"
    by simp
  with Cons show ?case
    by (simp add: lines_of_def)
qed

text \<open>
  The line number is right wherever no content ends with CR LF: after triples whose
  contents end with a line feed that no carriage return precedes, the loop holds 1 plus
  the number of line terminators of their contents, which is the number the next code
  block gets.
\<close>

lemma first_line_number_without_crlf:
  assumes "for_loop initial_state ps = Inr (html, cur, line)"
      and "\<forall>t\<in>set ps. ends_with_newline (contents_of t) \<and>
             (chomp (contents_of t) = [] \<or> last (chomp (contents_of t)) \<noteq> CR)"
  shows "line = 1 + sum_list (map (\<lambda>t. count_line_terminators (contents_of t)) ps)"
  using for_loop_line [of "[]" "Num (- 2)" 1 ps html cur line] assms(1)
    lines_of_without_crlf [OF assms(2)]
  by (simp add: initial_state_def)

section \<open>Properties of \<open>editor_to_code_doc_blocks\<close>\<close>

lemma split_from_lines:
  "concat (map (\<lambda>l. l @ [LF]) (split_from piece s)) = piece @ crlf_to_lf s @ [LF]"
proof (induction piece s rule: split_from.induct)
  case (1 piece)
  show ?case by simp
next
  case (2 piece c)
  show ?case by simp
next
  case (3 piece c d cs)
  then show ?case
    by (auto simp: LF_def CR_def)
qed

lemma split_lines_contents:
  "concat (map contents_of (map (\<lambda>string. (indent, delimiter, string @ [LF])) (split_lines s))) =
     crlf_to_lf s @ [LF]"
proof -
  have "map contents_of (map (\<lambda>string. (indent, delimiter, string @ [LF])) (split_lines s)) =
      map (\<lambda>l. l @ [LF]) (split_lines s)"
    by (induction "split_lines s") (simp_all add: contents_of_def)
  then have "concat (map contents_of
      (map (\<lambda>string. (indent, delimiter, string @ [LF])) (split_lines s))) =
      concat (map (\<lambda>l. l @ [LF]) (split_from [] s))"
    by (simp only: split_lines_def)
  also have "\<dots> = crlf_to_lf s @ [LF]"
    using split_from_lines [of "[]" s] by simp
  finally show ?thesis .
qed

lemma tag_block_known:
  assumes "comment_known mode tag"
  shows "\<exists>indent delimiter. tag_block hb mode tag = Inr (indent, delimiter, full_string hb mode tag)"
proof (cases tag)
  case (ACE v)
  then show ?thesis by (simp add: full_string_def)
next
  case (TinyMCE indent_cell attribute content)
  with assms show ?thesis
    by (cases attribute) (auto simp: full_string_def Let_def)
qed

lemma tags_loop_contents:
  assumes "\<forall>tag\<in>set tags. comment_known mode tag"
  shows "\<exists>out. tags_loop hb mode acc tags = Inr out \<and>
           concat (map contents_of out) =
           concat (map contents_of acc) @
           concat (map (\<lambda>tag. crlf_to_lf (full_string hb mode tag) @ [LF]) tags)"
  using assms
proof (induction tags arbitrary: acc)
  case Nil
  show ?case by simp
next
  case (Cons tag tags)
  then have "comment_known mode tag" by simp
  from tag_block_known [OF this, of hb] obtain indent delimiter where
    blk: "tag_block hb mode tag = Inr (indent, delimiter, full_string hb mode tag)"
    by blast
  let ?acc = "acc @ map (\<lambda>string. (indent, delimiter, string @ [LF]))
      (split_lines (full_string hb mode tag))"
  from Cons.prems have "\<forall>tag\<in>set tags. comment_known mode tag" by simp
  from Cons.IH [OF this, of ?acc] obtain out where
    out: "tags_loop hb mode ?acc tags = Inr out" and
    eq: "concat (map contents_of out) =
      concat (map contents_of ?acc) @
      concat (map (\<lambda>tag. crlf_to_lf (full_string hb mode tag) @ [LF]) tags)"
    by blast
  have "tags_loop hb mode acc (tag # tags) = Inr out"
    using out by (simp add: blk)
  moreover have "concat (map contents_of ?acc) =
      concat (map contents_of acc) @ crlf_to_lf (full_string hb mode tag) @ [LF]"
    using split_lines_contents [of indent delimiter "full_string hb mode tag"] by simp
  ultimately show ?case
    using eq by simp
qed

lemma crlf_to_lf_without_CR: "CR \<notin> set s \<Longrightarrow> crlf_to_lf s = s"
  by (induction s rule: crlf_to_lf.induct) auto

text \<open>
  Claim C2, as amended. For every editor state whose doc blocks carry their comment
  delimiter, \<open>editor_to_code_doc_blocks\<close> returns, and the contents of the triples it
  returns, concatenated, are the texts of the blocks in order, each with its CR LF line
  ends turned into LF and one more newline at its end.
\<close>

theorem editor_contents_concatenated:
  assumes "\<forall>tag\<in>set tags. comment_known mode tag"
  shows "\<exists>classified_lines.
           editor_to_code_doc_blocks html_beautify mode tags = Inr classified_lines \<and>
           concat (map contents_of classified_lines) =
           concat (map (\<lambda>tag. crlf_to_lf (full_string html_beautify mode tag) @ [LF]) tags)"
  using tags_loop_contents [OF assms, of html_beautify "[]"]
  by (simp add: editor_to_code_doc_blocks_def)

theorem editor_contents_concatenated_witness:
  "editor_to_code_doc_blocks (\<lambda>s n. s) ''python''
     [ACE (''a'' @ [CR, LF] @ ''b''), TinyMCE ''  '' (Some ''#'') ''<p>x</p>''] =
   Inr [([], Some [], ''a\<newline>''), ([], Some [], ''b\<newline>''), (''  '', Some ''#'', ''<p>x</p>\<newline>'')] \<and>
   concat (map contents_of
     [([], Some [], ''a\<newline>''), ([], Some [], ''b\<newline>''), (''  '', Some ''#'', ''<p>x</p>\<newline>'')]) =
   ''a\<newline>b\<newline><p>x</p>\<newline>''"
  using editor_contents_concatenated
    [of "[ACE (''a'' @ [CR, LF] @ ''b''), TinyMCE ''  '' (Some ''#'') ''<p>x</p>'']" "''python''" "\<lambda>s n. s"]
  by (simp add: editor_to_code_doc_blocks_def split_lines_def is_doc_only_def contents_of_def
      LF_def CR_def)

text \<open>
  Claim C2 as stated fails: the contents of the one block \<open>a\<close> concatenate to \<open>a\<close>
  with a newline that the block does not have, and the CR LF between two lines comes
  back as LF.
\<close>

theorem editor_contents_add_newline:
  "editor_to_code_doc_blocks (\<lambda>s n. s) ''python'' [ACE ''a''] = Inr [([], Some [], ''a\<newline>'')] \<and>
   concat (map contents_of [([], Some [], ''a\<newline>'')]) \<noteq> ''a'' \<and>
   editor_to_code_doc_blocks (\<lambda>s n. s) ''python'' [ACE (''a'' @ [CR, LF] @ ''b'')] =
     Inr [([], Some [], ''a\<newline>''), ([], Some [], ''b\<newline>'')] \<and>
   concat (map contents_of [([], Some [], ''a\<newline>''), ([], Some [], ''b\<newline>'')]) \<noteq>
     ''a'' @ [CR, LF] @ ''b''"
  by (simp add: editor_to_code_doc_blocks_def split_lines_def contents_of_def LF_def CR_def)

section \<open>Properties of the indent editor\<close>

lemma repeat_space: "repeat '' '' n = replicate n (CHR '' '')"
  by (induction n) (simp_all add: repeat_def)

lemma eq_replicate_length: "(d = replicate (length d) c) = (\<forall>x\<in>set d. x = c)"
  by (induction d) auto

text \<open>
  Claim C6. For a \<open>beforeinput\<close> event whose \<open>data\<close> is a string that is not empty,
  and that nothing has prevented yet, the handler prevents the insertion exactly when
  the data holds a character other than a space. So the text of an insertion that goes
  through consists of spaces.
\<close>

theorem indent_insert_prevented_iff:
  assumes "data event = Some d" and "d \<noteq> []" and "\<not> defaultPrevented event"
  shows "defaultPrevented (doc_block_indent_on_before_input event) = (\<exists>c\<in>set d. c \<noteq> CHR '' '')"
  using assms
  by (auto simp: doc_block_indent_on_before_input_def preventDefault_def repeat_space eq_replicate_length)

theorem indent_insert_prevented_iff_witness:
  "defaultPrevented (doc_block_indent_on_before_input \<lparr>data = Some ''  '', defaultPrevented = False\<rparr>) = False \<and>
   defaultPrevented (doc_block_indent_on_before_input \<lparr>data = Some '' x'', defaultPrevented = False\<rparr>) = True"
  using indent_insert_prevented_iff [of "\<lparr>data = Some ''  '', defaultPrevented = False\<rparr>" "''  ''"]
    indent_insert_prevented_iff [of "\<lparr>data = Some '' x'', defaultPrevented = False\<rparr>" "'' x''"]
  by simp

section \<open>Properties of \<open>save\<close>\<close>

lemma get_property_not_null: "body \<noteq> JNull \<Longrightarrow> \<exists>v. get_property body name = Inr v"
  by (cases body) simp_all

text \<open>
  In the four outcomes that follow \<open>save\<close> returns and raises nothing: when \<open>fetch\<close>
  rejects, when the response is not ok, when the response is ok and its body (a parsed
  value other than \<open>null\<close>) has a \<open>success\<close> that is not \<open>true\<close>, and when it is ok and
  \<open>success\<close> is \<open>true\<close>. In the first three there is one alert, which reports the
  failure; in the last there is none.
\<close>

lemma save_listed_outcomes:
  "save (Inl error) = ([''Save failed -- '' @ error @ ''.''], Inr ()) \<and>
   (\<not> ok r \<longrightarrow>
      save (Inr r) =
        ([''Save failed -- server returned '' @ template_nat (status r) @ '', '' @ statusText r @ ''.''],
         Inr ())) \<and>
   (ok r \<and> json r = Inr body \<and> body \<noteq> JNull \<and>
      get_property body ''success'' \<noteq> Inr (Value (JBool True)) \<longrightarrow>
      save (Inr r) = ([''Save failed.''], Inr ())) \<and>
   (ok r \<and> json r = Inr body \<and> get_property body ''success'' = Inr (Value (JBool True)) \<longrightarrow>
      save (Inr r) = ([], Inr ()))"
proof -
  have "body \<noteq> JNull \<Longrightarrow> get_property body ''success'' \<noteq> Inr (Value (JBool True)) \<Longrightarrow>
      \<exists>v. get_property body ''success'' = Inr v \<and> v \<noteq> Value (JBool True)"
    using get_property_not_null [of body "''success''"] by auto
  then show ?thesis
    by (auto simp: save_def)
qed

lemma save_listed_outcomes_examples:
  "save (Inr \<lparr>ok = False, status = 500, statusText = ''Internal Server Error'', json = Inl SyntaxError\<rparr>) =
     ([''Save failed -- server returned 500, Internal Server Error.''], Inr ()) \<and>
   save (Inr \<lparr>ok = True, status = 200, statusText = ''OK'', json = Inr (JObject [(''success'', JBool False)])\<rparr>) =
     ([''Save failed.''], Inr ()) \<and>
   save (Inr \<lparr>ok = True, status = 200, statusText = ''OK'', json = Inr (JObject [(''success'', JBool True)])\<rparr>) =
     ([], Inr ())"
  using
    save_listed_outcomes [of "[]" "\<lparr>ok = False, status = 500, statusText = ''Internal Server Error'', json = Inl SyntaxError\<rparr>" JNull]
    save_listed_outcomes [of "[]" "\<lparr>ok = True, status = 200, statusText = ''OK'', json = Inr (JObject [(''success'', JBool False)])\<rparr>" "JObject [(''success'', JBool False)]"]
    save_listed_outcomes [of "[]" "\<lparr>ok = True, status = 200, statusText = ''OK'', json = Inr (JObject [(''success'', JBool True)])\<rparr>" "JObject [(''success'', JBool True)]"]
  by (simp add: template_nat.simps digit_char_def)

text \<open>
  Claim C7. The claim does not hold of every outcome of the request: only the call of
  \<open>fetch\<close> stands inside the \<open>try\<close>. When the response is ok and its body is not
  JSON, awaiting \<open>response.json()\<close> raises; when the body is the JSON value \<open>null\<close>,
  reading \<open>response_body.success\<close> raises. In both cases \<open>save\<close> raises and there is
  no alert.
\<close>

theorem save_raises_on_unreadable_body:
  "save (Inr \<lparr>ok = True, status = 200, statusText = ''OK'', json = Inl SyntaxError\<rparr>) =
     ([], Inl SyntaxError) \<and>
   save (Inr \<lparr>ok = True, status = 200, statusText = ''OK'', json = Inr JNull\<rparr>) =
     ([], Inl TypeError)"
  by (simp add: save_def)

end
